theory Spec2Isabelle
  imports Complex_Main "HOL-Library.Sublist"
begin

section \<open>exampleMocoTrack.cpp: the values handed to the toolkit\<close>

text \<open>
  The example builds argument values and calls the OpenSim Moco toolkit with them. The
  toolkit is not part of the file; what the file does is the sequence of toolkit
  calls it makes and the values it passes. A \<^verbatim>\<open>double\<close> literal of the source
  (\<^verbatim>\<open>0.81\<close>, \<^verbatim>\<open>250\<close>) is the decimal number it denotes, as a \<^typ>\<open>real\<close>; the file does
  no arithmetic on them.
\<close>

datatype ModelOperator =
    ModOpAddExternalLoads string
  | ModOpRemoveMuscles
  | ModOpAddReserves real
  | ModOpReplaceMusclesWithDeGrooteFregly2016
  | ModOpIgnorePassiveFiberForcesDGF
  | ModOpScaleActiveFiberForceCurveWidthDGF real

text \<open>
  A ModelProcessor expression of the source: the base model file, and \<^verbatim>\<open>mp | op\<close>
  written \<open>Pipe mp op\<close>. C++ reads \<^verbatim>\<open>a | b | c\<close> as \<^verbatim>\<open>(a | b) | c\<close>, which is
  \<open>foldl Pipe a [b, c]\<close>.
\<close>

datatype ModelProcessor = ModelProcessor string | Pipe ModelProcessor ModelOperator

fun base_model :: "ModelProcessor \<Rightarrow> string" where
  "base_model (ModelProcessor file) = file"
| "base_model (Pipe mp opr) = base_model mp"

text \<open>
  Modelled from the spec: the toolkit's \<^verbatim>\<open>operator|\<close> is not in src/. The source's
  comment (lines 55 to 59) and the spec's glossary say that it appends the operator to
  the processor's ordered chain, and that the operations are performed in the order in
  which they were appended.
\<close>

fun operators :: "ModelProcessor \<Rightarrow> ModelOperator list" where
  "operators (ModelProcessor file) = []"
| "operators (Pipe mp opr) = operators mp @ [opr]"

datatype TableProcessor = TableProcessor string

type_synonym MocoWeight = "string \<times> real"

type_synonym MocoWeightSet = "MocoWeight list"

text \<open>What the toolkit hands back: a solution with its status, and a processed model,
  of which the file reads only the absolute path strings of its CoordinateActuator
  components, in the order \<^verbatim>\<open>getComponentList<CoordinateActuator>()\<close> yields them.\<close>

datatype MocoSolution = MocoSolution (success: bool)

record Model =
  CoordinateActuators :: "string list"

section \<open>The toolkit calls\<close>

datatype call =
    MocoTrack_ctor
  | setName string
  | setModel ModelProcessor
  | setMarkersReferenceFromTRC string
  | set_allow_unused_references bool
  | set_markers_global_tracking_weight real
  | MocoWeightSet_ctor
  | cloneAndAppend MocoWeight
  | set_markers_weight_set MocoWeightSet
  | set_initial_time real
  | set_final_time real
  | set_mesh_interval real
  | MocoTrack_solve bool
  | setStatesReference TableProcessor
  | set_states_global_tracking_weight real
  | set_track_reference_position_derivatives bool
  | initialize
  | updProblem
  | updGoal string
  | dynamic_cast_MocoControlGoal
  | process ModelProcessor
  | getComponentList_CoordinateActuator
  | getAbsolutePathString string
  | setWeightForControl string real
  | MocoStudy_solve
  | visualize MocoSolution

text \<open>
  The toolkit as the file sees it: any call may raise (decided from the calls made so
  far and the call at hand), \<^verbatim>\<open>modelProcessor.process()\<close> returns a model, and
  \<^verbatim>\<open>moco.solve()\<close> returns a solution.
\<close>

record toolkit =
  throws :: "call list \<Rightarrow> call \<Rightarrow> bool"
  process_result :: "ModelProcessor \<Rightarrow> Model"
  solve_result :: MocoSolution

datatype exception = Exception call

text \<open>
  Running a straight-line sequence of calls after the history \<open>h\<close>: each call is
  recorded; the first one that raises ends the run, since the file has no
  \<^verbatim>\<open>try\<close> block. The result is the history at the end and the exception in flight.
\<close>

fun exec :: "toolkit \<Rightarrow> call list \<Rightarrow> call list \<Rightarrow> call list \<times> exception option" where
  "exec tk h [] = (h, None)"
| "exec tk h (c # cs) =
     (if throws tk h c then (h @ [c], Some (Exception c)) else exec tk (h @ [c]) cs)"

section \<open>torqueDrivenMarkerTracking\<close>

text \<open>Lines 89 to 103: the local \<^verbatim>\<open>markerWeights\<close> and the fourteen appends.\<close>

definition markerWeights_calls :: "call list" where
  "markerWeights_calls =
    [MocoWeightSet_ctor,
     cloneAndAppend (''R.ASIS'', 20),
     cloneAndAppend (''L.ASIS'', 20),
     cloneAndAppend (''R.PSIS'', 20),
     cloneAndAppend (''L.PSIS'', 20),
     cloneAndAppend (''R.Knee'', 10),
     cloneAndAppend (''R.Ankle'', 10),
     cloneAndAppend (''R.Heel'', 10),
     cloneAndAppend (''R.MT5'', 5),
     cloneAndAppend (''R.Toe'', 2),
     cloneAndAppend (''L.Knee'', 10),
     cloneAndAppend (''L.Ankle'', 10),
     cloneAndAppend (''L.Heel'', 10),
     cloneAndAppend (''L.MT5'', 5),
     cloneAndAppend (''L.Toe'', 2)]"

text \<open>
  Modelled from the spec: the toolkit's \<^verbatim>\<open>MocoWeightSet\<close> and its
  \<^verbatim>\<open>cloneAndAppend\<close> are not in src/. The spec's data model says that the file
  supplies named key-value pairs (marker name to weight); the content of a weight set
  after a sequence of calls on it is taken to be the pairs appended since its
  construction, in the order of the calls.
\<close>

definition weight_call :: "MocoWeightSet \<Rightarrow> call \<Rightarrow> MocoWeightSet" where
  "weight_call ws c =
     (case c of MocoWeightSet_ctor \<Rightarrow> [] | cloneAndAppend w \<Rightarrow> ws @ [w] | _ \<Rightarrow> ws)"

definition markerWeights :: MocoWeightSet where
  "markerWeights = foldl weight_call [] markerWeights_calls"

definition torqueDrivenMarkerTracking_calls :: "call list" where
  "torqueDrivenMarkerTracking_calls =
    [MocoTrack_ctor,
     setName ''torque_driven_marker_tracking'',
     setModel (foldl Pipe (ModelProcessor ''subject_walk_armless.osim'')
        [ModOpAddExternalLoads ''grf_walk.xml'',
         ModOpRemoveMuscles,
         ModOpAddReserves 250]),
     setMarkersReferenceFromTRC ''marker_trajectories.trc'',
     set_allow_unused_references True,
     set_markers_global_tracking_weight 10]
    @ markerWeights_calls @
    [set_markers_weight_set markerWeights,
     set_initial_time 0.81,
     set_final_time 1.65,
     set_mesh_interval 0.05,
     MocoTrack_solve True]"

definition torqueDrivenMarkerTracking ::
  "toolkit \<Rightarrow> call list \<Rightarrow> call list \<times> exception option" where
  "torqueDrivenMarkerTracking tk h = exec tk h torqueDrivenMarkerTracking_calls"

section \<open>muscleDrivenStateTracking\<close>

text \<open>Lines 126 to 133: the local \<^verbatim>\<open>modelProcessor\<close>, used at lines 134 and 172.\<close>

definition modelProcessor :: ModelProcessor where
  "modelProcessor =
     foldl Pipe (ModelProcessor ''subject_walk_armless.osim'')
       [ModOpAddExternalLoads ''grf_walk.xml'',
        ModOpReplaceMusclesWithDeGrooteFregly2016,
        ModOpIgnorePassiveFiberForcesDGF,
        ModOpScaleActiveFiberForceCurveWidthDGF 1.5]"

text \<open>\<^verbatim>\<open>std::string::find\<close> from position 0: the first index at which the pattern
  starts, or \<^verbatim>\<open>npos\<close> (here \<open>None\<close>).\<close>

primrec string_find :: "string \<Rightarrow> string \<Rightarrow> nat option" where
  "string_find [] pat = (if pat = [] then Some 0 else None)"
| "string_find (c # s) pat =
     (if prefix pat (c # s) then Some 0 else map_option Suc (string_find s pat))"

definition npos :: "nat option" where
  "npos = None"

text \<open>Lines 173 to 178: the loop over the model's CoordinateActuators.\<close>

fun coordAct_loop :: "string list \<Rightarrow> call list" where
  "coordAct_loop [] = []"
| "coordAct_loop (coordAct # rest) =
     (let coordPath = coordAct in
        getAbsolutePathString coordAct
        # (if string_find coordPath ''pelvis'' \<noteq> npos
           then [setWeightForControl coordPath 10] else [])
        @ coordAct_loop rest)"

definition muscleDrivenStateTracking_calls :: "toolkit \<Rightarrow> call list" where
  "muscleDrivenStateTracking_calls tk =
    [MocoTrack_ctor,
     setName ''muscle_driven_state_tracking'',
     setModel modelProcessor,
     setStatesReference (TableProcessor ''coordinates.sto''),
     set_states_global_tracking_weight 10,
     set_allow_unused_references True,
     set_track_reference_position_derivatives True,
     set_initial_time 0.81,
     set_final_time 1.65,
     set_mesh_interval 0.08,
     initialize,
     updProblem,
     updGoal ''control_effort'',
     dynamic_cast_MocoControlGoal,
     process modelProcessor,
     getComponentList_CoordinateActuator]
    @ coordAct_loop (CoordinateActuators (process_result tk modelProcessor)) @
    [MocoStudy_solve,
     visualize (solve_result tk)]"

definition muscleDrivenStateTracking ::
  "toolkit \<Rightarrow> call list \<Rightarrow> call list \<times> exception option" where
  "muscleDrivenStateTracking tk h = exec tk h (muscleDrivenStateTracking_calls tk)"

section \<open>main\<close>

definition EXIT_SUCCESS :: int where
  "EXIT_SUCCESS = 0"

text \<open>The calls made in all and what leaves \<^verbatim>\<open>main\<close>: the exit code, or the exception
  that nothing caught.\<close>

definition main :: "toolkit \<Rightarrow> call list \<times> (exception + int)" where
  "main tk =
     (case torqueDrivenMarkerTracking tk [] of
        (h1, Some e) \<Rightarrow> (h1, Inl e)
      | (h1, None) \<Rightarrow>
          (case muscleDrivenStateTracking tk h1 of
             (h2, Some e) \<Rightarrow> (h2, Inl e)
           | (h2, None) \<Rightarrow> (h2, Inr EXIT_SUCCESS)))"

text \<open>The calls of a run of \<^verbatim>\<open>main\<close> in which nothing raises.\<close>

definition main_calls :: "toolkit \<Rightarrow> call list" where
  "main_calls tk = torqueDrivenMarkerTracking_calls @ muscleDrivenStateTracking_calls tk"

section \<open>Reading a sequence of calls\<close>

text \<open>The calls a procedure made itself, when it was entered after the history \<open>h\<close>.\<close>

definition own_calls :: "call list \<Rightarrow> call list \<times> exception option \<Rightarrow> call list" where
  "own_calls h r = drop (length h) (fst r)"

text \<open>The two entry points of the solver: \<^verbatim>\<open>MocoTrack::solve\<close> and \<^verbatim>\<open>MocoStudy::solve\<close>.\<close>

definition is_solve :: "call \<Rightarrow> bool" where
  "is_solve c = (case c of MocoTrack_solve v \<Rightarrow> True | MocoStudy_solve \<Rightarrow> True | _ \<Rightarrow> False)"

text \<open>
  The steps of the flow the spec names, and the step each call belongs to. Creating
  and naming the tool comes first; \<^verbatim>\<open>track.initialize()\<close> builds the study without
  solving it; the calls of lines 165 to 178 reach the control-effort goal and the
  processed model and adjust the goal's weights; \<^verbatim>\<open>visualize\<close> comes last.
\<close>

datatype phase =
    Create
  | ConfigureModel
  | ConfigureReference
  | SetParameters
  | Initialize
  | PostProcess
  | Solve
  | Visualize

definition phase_of :: "call \<Rightarrow> phase" where
  "phase_of c =
     (case c of
        MocoTrack_ctor \<Rightarrow> Create
      | setName n \<Rightarrow> Create
      | setModel mp \<Rightarrow> ConfigureModel
      | setMarkersReferenceFromTRC f \<Rightarrow> ConfigureReference
      | setStatesReference tp \<Rightarrow> ConfigureReference
      | set_allow_unused_references b \<Rightarrow> SetParameters
      | set_markers_global_tracking_weight w \<Rightarrow> SetParameters
      | MocoWeightSet_ctor \<Rightarrow> SetParameters
      | cloneAndAppend w \<Rightarrow> SetParameters
      | set_markers_weight_set ws \<Rightarrow> SetParameters
      | set_initial_time t \<Rightarrow> SetParameters
      | set_final_time t \<Rightarrow> SetParameters
      | set_mesh_interval t \<Rightarrow> SetParameters
      | set_states_global_tracking_weight w \<Rightarrow> SetParameters
      | set_track_reference_position_derivatives b \<Rightarrow> SetParameters
      | MocoTrack_solve v \<Rightarrow> Solve
      | MocoStudy_solve \<Rightarrow> Solve
      | initialize \<Rightarrow> Initialize
      | updProblem \<Rightarrow> PostProcess
      | updGoal n \<Rightarrow> PostProcess
      | dynamic_cast_MocoControlGoal \<Rightarrow> PostProcess
      | process mp \<Rightarrow> PostProcess
      | getComponentList_CoordinateActuator \<Rightarrow> PostProcess
      | getAbsolutePathString p \<Rightarrow> PostProcess
      | setWeightForControl p w \<Rightarrow> PostProcess
      | visualize s \<Rightarrow> Visualize)"

text \<open>
  The one setting of the file that turns a toolkit error off (lines 78 to 81: "Set
  this flag to avoid an exception from being thrown"; lines 144 to 146).
\<close>

definition suppresses_error :: "call \<Rightarrow> bool" where
  "suppresses_error c = (case c of set_allow_unused_references b \<Rightarrow> b | _ \<Rightarrow> False)"

text \<open>The reference data a call configures: markers from a TRC file, or a states table.\<close>

datatype reference = MarkersReference string | StatesReference TableProcessor

definition references_set :: "call list \<Rightarrow> reference list" where
  "references_set cs =
     concat (map (\<lambda>c. case c of
         setMarkersReferenceFromTRC f \<Rightarrow> [MarkersReference f]
       | setStatesReference tp \<Rightarrow> [StatesReference tp]
       | _ \<Rightarrow> []) cs)"

text \<open>The model processors handed to \<^verbatim>\<open>setModel\<close>, and the weight sets handed to
  \<^verbatim>\<open>set_markers_weight_set\<close>.\<close>

definition models_set :: "call list \<Rightarrow> ModelProcessor list" where
  "models_set cs = concat (map (\<lambda>c. case c of setModel mp \<Rightarrow> [mp] | _ \<Rightarrow> []) cs)"

definition weight_sets_set :: "call list \<Rightarrow> MocoWeightSet list" where
  "weight_sets_set cs =
     concat (map (\<lambda>c. case c of set_markers_weight_set ws \<Rightarrow> [ws] | _ \<Rightarrow> []) cs)"

text \<open>The input files a call names: the base model of a model processor, the file of
  an external-loads operator, a TRC file, the file of a table processor.\<close>

definition operator_files :: "ModelOperator \<Rightarrow> string list" where
  "operator_files opr = (case opr of ModOpAddExternalLoads f \<Rightarrow> [f] | _ \<Rightarrow> [])"

definition processor_files :: "ModelProcessor \<Rightarrow> string list" where
  "processor_files mp = base_model mp # concat (map operator_files (operators mp))"

definition input_files :: "call \<Rightarrow> string list" where
  "input_files c =
     (case c of
        setModel mp \<Rightarrow> processor_files mp
      | process mp \<Rightarrow> processor_files mp
      | setMarkersReferenceFromTRC f \<Rightarrow> [f]
      | setStatesReference tp \<Rightarrow> (case tp of TableProcessor f \<Rightarrow> [f])
      | _ \<Rightarrow> [])"

text \<open>
  The scalar settings of the tracking tool (time window, mesh interval, global
  tracking weights), and the calls that make the tool build its problem:
  \<^verbatim>\<open>track.solve\<close> builds and solves it, \<^verbatim>\<open>track.initialize\<close> builds it.
\<close>

definition scalar_setting :: "call \<Rightarrow> bool" where
  "scalar_setting c =
     (case c of
        set_initial_time t \<Rightarrow> True
      | set_final_time t \<Rightarrow> True
      | set_mesh_interval t \<Rightarrow> True
      | set_markers_global_tracking_weight w \<Rightarrow> True
      | set_states_global_tracking_weight w \<Rightarrow> True
      | _ \<Rightarrow> False)"

definition builds_problem :: "call \<Rightarrow> bool" where
  "builds_problem c = (case c of MocoTrack_solve v \<Rightarrow> True | initialize \<Rightarrow> True | _ \<Rightarrow> False)"

definition before_build :: "call list \<Rightarrow> call list" where
  "before_build cs = takeWhile (\<lambda>c. \<not> builds_problem c) cs"

text \<open>Toolkits to run the example with: one that never raises and finds a pelvis
  actuator and a hip actuator in the model, one whose study solver raises, and one
  whose solver hands back a failed solution.\<close>

definition example_toolkit :: toolkit where
  "example_toolkit =
     \<lparr>throws = (\<lambda>h c. False),
      process_result =
        (\<lambda>mp. \<lparr>CoordinateActuators = [''/forceset/pelvis_tx'', ''/forceset/hip_flexion_r'']\<rparr>),
      solve_result = MocoSolution True\<rparr>"

definition raising_toolkit :: toolkit where
  "raising_toolkit = example_toolkit\<lparr>throws := (\<lambda>h c. c = MocoStudy_solve)\<rparr>"

definition failing_toolkit :: toolkit where
  "failing_toolkit = example_toolkit\<lparr>solve_result := MocoSolution False\<rparr>"

text \<open>A toolkit that cannot read the marker file and cannot build the study: it raises
  at \<^verbatim>\<open>setMarkersReferenceFromTRC\<close> and at \<^verbatim>\<open>initialize\<close>.\<close>

definition unready_toolkit :: toolkit where
  "unready_toolkit =
     example_toolkit\<lparr>throws :=
       (\<lambda>h c. c = setMarkersReferenceFromTRC ''marker_trajectories.trc'' \<or> c = initialize)\<rparr>"

section \<open>The objects the calls work on\<close>










section \<open>Running a sequence of calls\<close>

lemma exec_returns:
  "snd (exec tk h cs) = None \<Longrightarrow> fst (exec tk h cs) = h @ cs"
  by (induction cs arbitrary: h) (auto split: if_splits)

lemma exec_prefix: "\<exists>cs'. prefix cs' cs \<and> fst (exec tk h cs) = h @ cs'"
proof (induction cs arbitrary: h)
  case Nil
  then show ?case by simp
next
  case (Cons c cs)
  show ?case
  proof (cases "throws tk h c")
    case True
    then have "prefix [c] (c # cs) \<and> fst (exec tk h (c # cs)) = h @ [c]" by simp
    then show ?thesis by blast
  next
    case False
    from Cons.IH [of "h @ [c]"] obtain cs' where
      "prefix cs' cs" "fst (exec tk (h @ [c]) cs) = (h @ [c]) @ cs'" by blast
    with False have "prefix (c # cs') (c # cs) \<and> fst (exec tk h (c # cs)) = h @ c # cs'"
      by simp
    then show ?thesis by blast
  qed
qed

lemma own_calls_prefix: "prefix (own_calls h (exec tk h cs)) cs"
  using exec_prefix [of cs tk h] by (auto simp: own_calls_def)

lemma own_calls_returns: "snd (exec tk h cs) = None \<Longrightarrow> own_calls h (exec tk h cs) = cs"
  by (simp add: own_calls_def exec_returns)

lemma exec_quiet: "(\<And>h c. \<not> throws tk h c) \<Longrightarrow> exec tk h cs = (h @ cs, None)"
  by (induction cs arbitrary: h) auto

lemma length_filter_prefix: "prefix xs ys \<Longrightarrow> length (filter P xs) \<le> length (filter P ys)"
  by (auto simp: prefix_def)

section \<open>Facts about the two procedures\<close>

lemma example_quiet: "\<not> throws example_toolkit h c"
  by (simp add: example_toolkit_def)

lemma torque_example:
  "torqueDrivenMarkerTracking example_toolkit h = (h @ torqueDrivenMarkerTracking_calls, None)"
  by (simp add: torqueDrivenMarkerTracking_def exec_quiet example_quiet)

lemma muscle_example:
  "muscleDrivenStateTracking example_toolkit h =
     (h @ muscleDrivenStateTracking_calls example_toolkit, None)"
  by (simp add: muscleDrivenStateTracking_def exec_quiet example_quiet)

lemma string_find_sublist: "string_find s pat \<noteq> npos \<longleftrightarrow> sublist pat s"
  by (induction s) (auto simp: npos_def sublist_Cons_right)

lemma setWeight_in_loop:
  "setWeightForControl p w \<in> set (coordAct_loop ps) \<longleftrightarrow>
     p \<in> set ps \<and> sublist ''pelvis'' p \<and> w = 10"
  by (induction ps) (auto simp: string_find_sublist simp del: string_find.simps)

lemma no_solve_in_loop: "filter is_solve (coordAct_loop ps) = []"
  by (induction ps) (auto simp: is_solve_def)

lemma solves_torque: "length (filter is_solve torqueDrivenMarkerTracking_calls) = 1"
  by (simp add: torqueDrivenMarkerTracking_calls_def markerWeights_calls_def is_solve_def)

lemma solves_muscle: "length (filter is_solve (muscleDrivenStateTracking_calls tk)) = 1"
  by (simp add: muscleDrivenStateTracking_calls_def no_solve_in_loop) (simp add: is_solve_def)

lemma main_example: "main example_toolkit = (main_calls example_toolkit, Inr EXIT_SUCCESS)"
  by (simp add: main_def torque_example muscle_example main_calls_def)

lemma main_prefix: "prefix (fst (main tk)) (main_calls tk)"
proof (cases "snd (torqueDrivenMarkerTracking tk [])")
  case None
  then have t: "fst (torqueDrivenMarkerTracking tk []) = torqueDrivenMarkerTracking_calls"
    using exec_returns [of tk "[]" torqueDrivenMarkerTracking_calls]
    by (simp add: torqueDrivenMarkerTracking_def)
  obtain cs' where "prefix cs' (muscleDrivenStateTracking_calls tk)"
    "fst (muscleDrivenStateTracking tk torqueDrivenMarkerTracking_calls) =
       torqueDrivenMarkerTracking_calls @ cs'"
    using exec_prefix [of "muscleDrivenStateTracking_calls tk" tk
        torqueDrivenMarkerTracking_calls]
    by (auto simp: muscleDrivenStateTracking_def)
  with None t show ?thesis
    by (cases "torqueDrivenMarkerTracking tk []";
        cases "muscleDrivenStateTracking tk torqueDrivenMarkerTracking_calls")
       (auto simp: main_def main_calls_def split: option.splits)
next
  case (Some e)
  obtain cs' where "prefix cs' torqueDrivenMarkerTracking_calls"
    "fst (torqueDrivenMarkerTracking tk []) = cs'"
    using exec_prefix [of torqueDrivenMarkerTracking_calls tk "[]"]
    by (auto simp: torqueDrivenMarkerTracking_def)
  with Some show ?thesis
    by (cases "torqueDrivenMarkerTracking tk []") (auto simp: main_def main_calls_def)
qed

lemma remdups_adj_replicate: "remdups_adj (x # replicate n x @ ys) = remdups_adj (x # ys)"
  by (induction n) auto

lemma phase_of_loop:
  "map phase_of (coordAct_loop ps) = replicate (length (coordAct_loop ps)) PostProcess"
  by (induction ps) (auto simp: phase_of_def)

lemma phases_torque:
  "remdups_adj (map phase_of torqueDrivenMarkerTracking_calls) =
     [Create, ConfigureModel, ConfigureReference, SetParameters, Solve]"
  by (simp add: torqueDrivenMarkerTracking_calls_def markerWeights_calls_def phase_of_def)

lemma phases_muscle:
  "remdups_adj (map phase_of (muscleDrivenStateTracking_calls tk)) =
     [Create, ConfigureModel, ConfigureReference, SetParameters, Initialize, PostProcess,
      Solve, Visualize]"
  by (simp add: muscleDrivenStateTracking_calls_def phase_of_loop remdups_adj_replicate
      phase_of_def)

lemma no_suppress_in_loop: "filter suppresses_error (coordAct_loop ps) = []"
  by (induction ps) (auto simp: suppresses_error_def)

lemma no_reference_in_loop: "references_set (coordAct_loop ps) = []"
  by (induction ps) (auto simp: references_set_def)

lemma no_model_in_loop: "models_set (coordAct_loop ps) = []"
  by (induction ps) (auto simp: models_set_def)

lemma no_files_in_loop: "concat (map input_files (coordAct_loop ps)) = []"
  by (induction ps) (auto simp: input_files_def)

lemma no_build_in_loop: "filter builds_problem (coordAct_loop ps) = []"
  by (induction ps) (auto simp: builds_problem_def)

lemma suppress_torque:
  "filter suppresses_error torqueDrivenMarkerTracking_calls = [set_allow_unused_references True]"
  by (simp add: torqueDrivenMarkerTracking_calls_def markerWeights_calls_def
      suppresses_error_def)

lemma suppress_muscle:
  "filter suppresses_error (muscleDrivenStateTracking_calls tk) =
     [set_allow_unused_references True]"
  by (simp add: muscleDrivenStateTracking_calls_def no_suppress_in_loop suppresses_error_def)

lemma references_torque:
  "references_set torqueDrivenMarkerTracking_calls =
     [MarkersReference ''marker_trajectories.trc'']"
  by (simp add: torqueDrivenMarkerTracking_calls_def markerWeights_calls_def
      references_set_def)

lemma references_muscle:
  "references_set (muscleDrivenStateTracking_calls tk) =
     [StatesReference (TableProcessor ''coordinates.sto'')]"
  using no_reference_in_loop
  by (simp add: muscleDrivenStateTracking_calls_def references_set_def)

lemma models_torque:
  "models_set torqueDrivenMarkerTracking_calls =
     [foldl Pipe (ModelProcessor ''subject_walk_armless.osim'')
        [ModOpAddExternalLoads ''grf_walk.xml'', ModOpRemoveMuscles, ModOpAddReserves 250]]"
  by (simp add: torqueDrivenMarkerTracking_calls_def markerWeights_calls_def models_set_def)

lemma models_muscle: "models_set (muscleDrivenStateTracking_calls tk) = [modelProcessor]"
  using no_model_in_loop
  by (simp add: muscleDrivenStateTracking_calls_def models_set_def)

lemma files_torque:
  "concat (map input_files torqueDrivenMarkerTracking_calls) =
     [''subject_walk_armless.osim'', ''grf_walk.xml'', ''marker_trajectories.trc'']"
  by (simp add: torqueDrivenMarkerTracking_calls_def markerWeights_calls_def input_files_def
      processor_files_def operator_files_def)

lemma files_muscle:
  "concat (map input_files (muscleDrivenStateTracking_calls tk)) =
     [''subject_walk_armless.osim'', ''grf_walk.xml'', ''coordinates.sto'',
      ''subject_walk_armless.osim'', ''grf_walk.xml'']"
  by (simp add: muscleDrivenStateTracking_calls_def no_files_in_loop input_files_def
      processor_files_def operator_files_def modelProcessor_def)

lemma markerWeights_entries:
  "markerWeights =
     [(''R.ASIS'', 20), (''L.ASIS'', 20), (''R.PSIS'', 20), (''L.PSIS'', 20),
      (''R.Knee'', 10), (''R.Ankle'', 10), (''R.Heel'', 10), (''R.MT5'', 5), (''R.Toe'', 2),
      (''L.Knee'', 10), (''L.Ankle'', 10), (''L.Heel'', 10), (''L.MT5'', 5), (''L.Toe'', 2)]"
  by (simp add: markerWeights_def markerWeights_calls_def weight_call_def)

lemma markerWeights_mirror:
  "(''L.'' @ X, w) \<in> set markerWeights \<longleftrightarrow> (''R.'' @ X, w) \<in> set markerWeights"
  unfolding markerWeights_entries by auto

lemma main_returns: "snd (main tk) = Inr code \<Longrightarrow> fst (main tk) = main_calls tk"
proof -
  assume r: "snd (main tk) = Inr code"
  then have t: "snd (torqueDrivenMarkerTracking tk []) = None"
    by (cases "torqueDrivenMarkerTracking tk []") (auto simp: main_def split: option.splits)
  then have ft: "fst (torqueDrivenMarkerTracking tk []) = torqueDrivenMarkerTracking_calls"
    using exec_returns [of tk "[]" torqueDrivenMarkerTracking_calls]
    by (simp add: torqueDrivenMarkerTracking_def)
  from r t ft have m: "snd (muscleDrivenStateTracking tk torqueDrivenMarkerTracking_calls) = None"
    by (cases "torqueDrivenMarkerTracking tk []";
        cases "muscleDrivenStateTracking tk torqueDrivenMarkerTracking_calls")
       (auto simp: main_def split: option.splits)
  then have "fst (muscleDrivenStateTracking tk torqueDrivenMarkerTracking_calls) =
      torqueDrivenMarkerTracking_calls @ muscleDrivenStateTracking_calls tk"
    using exec_returns [of tk torqueDrivenMarkerTracking_calls
        "muscleDrivenStateTracking_calls tk"]
    by (simp add: muscleDrivenStateTracking_def)
  with t ft m show ?thesis
    by (cases "torqueDrivenMarkerTracking tk []";
        cases "muscleDrivenStateTracking tk torqueDrivenMarkerTracking_calls")
       (auto simp: main_def main_calls_def)
qed

lemma torque_returns:
  "snd (torqueDrivenMarkerTracking tk h) = None \<Longrightarrow>
     own_calls h (torqueDrivenMarkerTracking tk h) = torqueDrivenMarkerTracking_calls"
  by (simp add: torqueDrivenMarkerTracking_def own_calls_returns)

lemma muscle_returns:
  "snd (muscleDrivenStateTracking tk h) = None \<Longrightarrow>
     own_calls h (muscleDrivenStateTracking tk h) = muscleDrivenStateTracking_calls tk"
  by (simp add: muscleDrivenStateTracking_def own_calls_returns)

lemma weight_set_torque:
  "weight_sets_set torqueDrivenMarkerTracking_calls = [markerWeights]"
  by (simp add: torqueDrivenMarkerTracking_calls_def markerWeights_calls_def
      weight_sets_set_def)

lemma scalars_torque:
  "filter scalar_setting (before_build torqueDrivenMarkerTracking_calls) =
     [set_markers_global_tracking_weight 10, set_initial_time 0.81, set_final_time 1.65,
      set_mesh_interval 0.05]"
  by (simp add: torqueDrivenMarkerTracking_calls_def markerWeights_calls_def
      before_build_def builds_problem_def scalar_setting_def)

lemma scalars_muscle:
  "filter scalar_setting (before_build (muscleDrivenStateTracking_calls tk)) =
     [set_states_global_tracking_weight 10, set_initial_time 0.81, set_final_time 1.65,
      set_mesh_interval 0.08]"
  by (simp add: muscleDrivenStateTracking_calls_def before_build_def builds_problem_def
      scalar_setting_def)

lemma builds_torque:
  "filter builds_problem torqueDrivenMarkerTracking_calls = [MocoTrack_solve True]"
  by (simp add: torqueDrivenMarkerTracking_calls_def markerWeights_calls_def
      builds_problem_def)

lemma builds_muscle:
  "filter builds_problem (muscleDrivenStateTracking_calls tk) = [initialize]"
  by (simp add: muscleDrivenStateTracking_calls_def no_build_in_loop builds_problem_def)










section \<open>The claims\<close>

text \<open>
  C1. In a run of muscleDrivenStateTracking that returns, \<^verbatim>\<open>setWeightForControl(p, w)\<close>
  is called exactly when \<open>p\<close> is the absolute path string of a CoordinateActuator of the
  processed model, \<open>p\<close> contains the substring "pelvis", and \<open>w\<close> is 10. So every such
  actuator gets the weight 10, and the weight of no other control is set.
\<close>

theorem C1_pelvis_weights:
  assumes "snd (muscleDrivenStateTracking tk h) = None"
  shows "setWeightForControl p w \<in> set (own_calls h (muscleDrivenStateTracking tk h)) \<longleftrightarrow>
     p \<in> set (CoordinateActuators (process_result tk modelProcessor))
     \<and> sublist ''pelvis'' p \<and> w = 10"
proof -
  from assms have
    "own_calls h (muscleDrivenStateTracking tk h) = muscleDrivenStateTracking_calls tk"
    by (simp add: muscleDrivenStateTracking_def own_calls_returns)
  then show ?thesis
    by (simp add: muscleDrivenStateTracking_calls_def setWeight_in_loop)
qed

theorem C1_pelvis_weights_witness:
  "snd (muscleDrivenStateTracking example_toolkit []) = None \<and>
   setWeightForControl ''/forceset/pelvis_tx'' 10
     \<in> set (own_calls [] (muscleDrivenStateTracking example_toolkit [])) \<and>
   setWeightForControl ''/forceset/hip_flexion_r'' 10
     \<notin> set (own_calls [] (muscleDrivenStateTracking example_toolkit []))"
proof -
  have r: "snd (muscleDrivenStateTracking example_toolkit []) = None"
    by (simp add: muscle_example)
  have p: "process_result example_toolkit modelProcessor =
      \<lparr>CoordinateActuators = [''/forceset/pelvis_tx'', ''/forceset/hip_flexion_r'']\<rparr>"
    by (simp add: example_toolkit_def)
  have s1: "sublist ''pelvis'' ''/forceset/pelvis_tx''"
    by (simp add: sublist_code)
  have s2: "\<not> sublist ''pelvis'' ''/forceset/hip_flexion_r''"
    by (simp add: sublist_code)
  show ?thesis
    using r C1_pelvis_weights [OF r, of "''/forceset/pelvis_tx''" 10]
      C1_pelvis_weights [OF r, of "''/forceset/hip_flexion_r''" 10]
    by (simp add: p s1 s2)
qed

text \<open>
  C2 (as amended). The calls of a run that returns follow the order: create the tool,
  configure the model, configure the reference data, set the parameters, and then, in
  torqueDrivenMarkerTracking, solve; in muscleDrivenStateTracking, initialize (which
  builds the study and solves nothing), post-process the goal weights, solve, and
  visualize. The procedure that post-processes makes one solve call, after the
  post-processing.
\<close>

theorem C2_call_order:
  "(snd (torqueDrivenMarkerTracking tk h) = None \<longrightarrow>
      remdups_adj (map phase_of (own_calls h (torqueDrivenMarkerTracking tk h))) =
        [Create, ConfigureModel, ConfigureReference, SetParameters, Solve]) \<and>
   (snd (muscleDrivenStateTracking tk h) = None \<longrightarrow>
      remdups_adj (map phase_of (own_calls h (muscleDrivenStateTracking tk h))) =
        [Create, ConfigureModel, ConfigureReference, SetParameters, Initialize, PostProcess,
         Solve, Visualize]
      \<and> length (filter is_solve (own_calls h (muscleDrivenStateTracking tk h))) = 1)"
  by (simp add: torqueDrivenMarkerTracking_def muscleDrivenStateTracking_def own_calls_returns
      phases_torque phases_muscle solves_muscle)

theorem C2_call_order_witness:
  "snd (torqueDrivenMarkerTracking example_toolkit []) = None \<and>
   remdups_adj (map phase_of (own_calls [] (torqueDrivenMarkerTracking example_toolkit []))) =
     [Create, ConfigureModel, ConfigureReference, SetParameters, Solve] \<and>
   snd (muscleDrivenStateTracking example_toolkit []) = None \<and>
   remdups_adj (map phase_of (own_calls [] (muscleDrivenStateTracking example_toolkit []))) =
     [Create, ConfigureModel, ConfigureReference, SetParameters, Initialize, PostProcess,
      Solve, Visualize]"
  using C2_call_order [of example_toolkit "[]"]
  by (simp add: torque_example muscle_example)

text \<open>
  The claim as stated fails: in the run of muscleDrivenStateTracking with the example
  toolkit, the calls cannot be split into a solve, later a post-processing call, and
  later a second solve. The steps of the run, call by call, show the single solve
  after the post-processing.
\<close>

theorem C2_counterexample:
  "\<not> (\<exists>pre mid post s1 s2.
        own_calls [] (muscleDrivenStateTracking example_toolkit []) = pre @ s1 # mid @ s2 # post
        \<and> is_solve s1 \<and> (\<exists>c\<in>set mid. phase_of c = PostProcess) \<and> is_solve s2) \<and>
   map phase_of (own_calls [] (muscleDrivenStateTracking example_toolkit [])) =
     [Create, Create, ConfigureModel, ConfigureReference, SetParameters, SetParameters,
      SetParameters, SetParameters, SetParameters, SetParameters, Initialize, PostProcess,
      PostProcess, PostProcess, PostProcess, PostProcess, PostProcess, PostProcess,
      PostProcess, Solve, Visualize]"
proof
  show "\<not> (\<exists>pre mid post s1 s2.
        own_calls [] (muscleDrivenStateTracking example_toolkit []) = pre @ s1 # mid @ s2 # post
        \<and> is_solve s1 \<and> (\<exists>c\<in>set mid. phase_of c = PostProcess) \<and> is_solve s2)"
  proof
    assume "\<exists>pre mid post s1 s2.
        own_calls [] (muscleDrivenStateTracking example_toolkit []) = pre @ s1 # mid @ s2 # post
        \<and> is_solve s1 \<and> (\<exists>c\<in>set mid. phase_of c = PostProcess) \<and> is_solve s2"
    then obtain pre mid post s1 s2 where
      split: "muscleDrivenStateTracking_calls example_toolkit = pre @ s1 # mid @ s2 # post"
      and s: "is_solve s1" "is_solve s2"
      by (auto simp: muscle_example own_calls_def)
    have "length (filter is_solve (pre @ s1 # mid @ s2 # post)) = 1"
      using solves_muscle [of example_toolkit] by (simp only: split)
    with s show False by simp
  qed
  show "map phase_of (own_calls [] (muscleDrivenStateTracking example_toolkit [])) =
     [Create, Create, ConfigureModel, ConfigureReference, SetParameters, SetParameters,
      SetParameters, SetParameters, SetParameters, SetParameters, Initialize, PostProcess,
      PostProcess, PostProcess, PostProcess, PostProcess, PostProcess, PostProcess,
      PostProcess, Solve, Visualize]"
    by (simp add: muscle_example own_calls_def)
       (simp add: muscleDrivenStateTracking_calls_def example_toolkit_def npos_def
          phase_of_def Let_def)
qed

text \<open>
  C3 (as amended). The file uses one error-suppressing flag,
  \<^verbatim>\<open>allow_unused_references\<close>, and sets it in two places, once in each procedure: in
  torqueDrivenMarkerTracking, whose reference is the marker data, and in
  muscleDrivenStateTracking, whose reference is the states table. Nothing else in the
  file suppresses an error of the toolkit.
\<close>

theorem C3_flag_in_each_procedure:
  "filter suppresses_error torqueDrivenMarkerTracking_calls =
     [set_allow_unused_references True] \<and>
   references_set torqueDrivenMarkerTracking_calls =
     [MarkersReference ''marker_trajectories.trc''] \<and>
   filter suppresses_error (muscleDrivenStateTracking_calls tk) =
     [set_allow_unused_references True] \<and>
   references_set (muscleDrivenStateTracking_calls tk) =
     [StatesReference (TableProcessor ''coordinates.sto'')] \<and>
   filter suppresses_error (main_calls tk) =
     [set_allow_unused_references True, set_allow_unused_references True]"
  by (simp add: main_calls_def suppress_torque suppress_muscle references_torque
      references_muscle)

text \<open>The claim as stated fails: a run of \<^verbatim>\<open>main\<close> sets the flag twice, not once.\<close>

theorem C3_counterexample:
  "filter suppresses_error (fst (main example_toolkit)) =
     [set_allow_unused_references True, set_allow_unused_references True] \<and>
   length (filter suppresses_error (fst (main example_toolkit))) \<noteq> 1"
  by (simp add: main_example main_calls_def suppress_torque suppress_muscle)

text \<open>
  C4 (as amended). Neither procedure calls a solver twice: on every run, also one that
  an exception ends, each procedure makes at most one solve call, and on every run
  that returns it makes exactly one.
\<close>

theorem C4_one_solve:
  "length (filter is_solve (own_calls h (torqueDrivenMarkerTracking tk h))) \<le> 1 \<and>
   length (filter is_solve (own_calls h (muscleDrivenStateTracking tk h))) \<le> 1 \<and>
   (snd (torqueDrivenMarkerTracking tk h) = None \<longrightarrow>
      length (filter is_solve (own_calls h (torqueDrivenMarkerTracking tk h))) = 1) \<and>
   (snd (muscleDrivenStateTracking tk h) = None \<longrightarrow>
      length (filter is_solve (own_calls h (muscleDrivenStateTracking tk h))) = 1)"
proof -
  have "length (filter is_solve (own_calls h (torqueDrivenMarkerTracking tk h))) \<le> 1"
    unfolding torqueDrivenMarkerTracking_def
    using length_filter_prefix [OF own_calls_prefix, of is_solve h tk
        torqueDrivenMarkerTracking_calls]
    by (simp add: solves_torque)
  moreover have "length (filter is_solve (own_calls h (muscleDrivenStateTracking tk h))) \<le> 1"
    unfolding muscleDrivenStateTracking_def
    using length_filter_prefix [OF own_calls_prefix, of is_solve h tk
        "muscleDrivenStateTracking_calls tk"]
    by (simp add: solves_muscle)
  ultimately show ?thesis
    by (simp add: torqueDrivenMarkerTracking_def muscleDrivenStateTracking_def
        own_calls_returns solves_torque solves_muscle)
qed

theorem C4_one_solve_witness:
  "snd (torqueDrivenMarkerTracking example_toolkit []) = None \<and>
   length (filter is_solve (own_calls [] (torqueDrivenMarkerTracking example_toolkit []))) = 1 \<and>
   snd (muscleDrivenStateTracking example_toolkit []) = None \<and>
   length (filter is_solve (own_calls [] (muscleDrivenStateTracking example_toolkit []))) = 1"
  using C4_one_solve [of "[]" example_toolkit]
  by (simp add: torque_example muscle_example)

text \<open>
  The claim as stated fails: with a toolkit that raises at
  \<^verbatim>\<open>setMarkersReferenceFromTRC\<close> and at \<^verbatim>\<open>initialize\<close>, either procedure ends by
  the exception before its solve call and makes no solve call at all.
\<close>

theorem C4_counterexample:
  "snd (torqueDrivenMarkerTracking unready_toolkit []) =
     Some (Exception (setMarkersReferenceFromTRC ''marker_trajectories.trc'')) \<and>
   length (filter is_solve (own_calls [] (torqueDrivenMarkerTracking unready_toolkit []))) = 0 \<and>
   snd (muscleDrivenStateTracking unready_toolkit []) = Some (Exception initialize) \<and>
   length (filter is_solve (own_calls [] (muscleDrivenStateTracking unready_toolkit []))) = 0"
  by (simp add: torqueDrivenMarkerTracking_def torqueDrivenMarkerTracking_calls_def
      muscleDrivenStateTracking_def muscleDrivenStateTracking_calls_def own_calls_def
      unready_toolkit_def example_toolkit_def is_solve_def)

text \<open>
  C5. In every run that returns, the model handed to \<^verbatim>\<open>setModel\<close> has the base model
  \<^verbatim>\<open>subject_walk_armless.osim\<close> and the operators appended as an ordered chain: in
  torqueDrivenMarkerTracking, add external loads, remove muscles, add reserves with
  optimal force 250; in muscleDrivenStateTracking, add external loads, replace the
  muscles with DeGrooteFregly2016 muscles, ignore passive fiber forces, scale the
  active fiber force curve width by 1.5.
\<close>

theorem C5_operator_chains:
  "(snd (torqueDrivenMarkerTracking tk h) = None \<longrightarrow>
      map base_model (models_set (own_calls h (torqueDrivenMarkerTracking tk h))) =
        [''subject_walk_armless.osim''] \<and>
      map operators (models_set (own_calls h (torqueDrivenMarkerTracking tk h))) =
        [[ModOpAddExternalLoads ''grf_walk.xml'', ModOpRemoveMuscles,
          ModOpAddReserves 250]]) \<and>
   (snd (muscleDrivenStateTracking tk h) = None \<longrightarrow>
      map base_model (models_set (own_calls h (muscleDrivenStateTracking tk h))) =
        [''subject_walk_armless.osim''] \<and>
      map operators (models_set (own_calls h (muscleDrivenStateTracking tk h))) =
        [[ModOpAddExternalLoads ''grf_walk.xml'', ModOpReplaceMusclesWithDeGrooteFregly2016,
          ModOpIgnorePassiveFiberForcesDGF, ModOpScaleActiveFiberForceCurveWidthDGF 1.5]])"
  by (simp add: torque_returns muscle_returns models_torque models_muscle modelProcessor_def)

theorem C5_operator_chains_witness:
  "snd (torqueDrivenMarkerTracking example_toolkit []) = None \<and>
   map operators (models_set (own_calls [] (torqueDrivenMarkerTracking example_toolkit []))) =
     [[ModOpAddExternalLoads ''grf_walk.xml'', ModOpRemoveMuscles, ModOpAddReserves 250]] \<and>
   snd (muscleDrivenStateTracking example_toolkit []) = None \<and>
   map operators (models_set (own_calls [] (muscleDrivenStateTracking example_toolkit []))) =
     [[ModOpAddExternalLoads ''grf_walk.xml'', ModOpReplaceMusclesWithDeGrooteFregly2016,
       ModOpIgnorePassiveFiberForcesDGF, ModOpScaleActiveFiberForceCurveWidthDGF 1.5]]"
proof -
  have r: "snd (torqueDrivenMarkerTracking example_toolkit []) = None"
    "snd (muscleDrivenStateTracking example_toolkit []) = None"
    by (simp_all add: torque_example muscle_example)
  with C5_operator_chains [of example_toolkit "[]"] show ?thesis by blast
qed

text \<open>
  C6. In every run of \<^verbatim>\<open>main\<close> that returns, the input files named are exactly four:
  the model \<^verbatim>\<open>subject_walk_armless.osim\<close>, the ground reaction forces
  \<^verbatim>\<open>grf_walk.xml\<close>, the marker trajectories \<^verbatim>\<open>marker_trajectories.trc\<close> and the
  coordinates \<^verbatim>\<open>coordinates.sto\<close>; and no run of \<^verbatim>\<open>main\<close>, also one that an
  exception ends, names another file.
\<close>

theorem C6_input_files:
  "(snd (main tk) = Inr code \<longrightarrow>
      set (concat (map input_files (fst (main tk)))) =
        {''subject_walk_armless.osim'', ''grf_walk.xml'', ''marker_trajectories.trc'',
         ''coordinates.sto''} \<and>
      card (set (concat (map input_files (fst (main tk))))) = 4) \<and>
   set (concat (map input_files (fst (main tk)))) \<subseteq>
     {''subject_walk_armless.osim'', ''grf_walk.xml'', ''marker_trajectories.trc'',
      ''coordinates.sto''}"
proof -
  have all: "set (concat (map input_files (main_calls tk))) =
     {''subject_walk_armless.osim'', ''grf_walk.xml'', ''marker_trajectories.trc'',
      ''coordinates.sto''}"
    by (auto simp: main_calls_def files_torque files_muscle)
  have "set (fst (main tk)) \<subseteq> set (main_calls tk)"
    using main_prefix [of tk] by (rule set_mono_prefix)
  then have "set (concat (map input_files (fst (main tk)))) \<subseteq>
     set (concat (map input_files (main_calls tk)))"
    by auto
  with all have sub: "set (concat (map input_files (fst (main tk)))) \<subseteq>
     {''subject_walk_armless.osim'', ''grf_walk.xml'', ''marker_trajectories.trc'',
      ''coordinates.sto''}"
    by simp
  have ret: "snd (main tk) = Inr code \<longrightarrow>
      set (concat (map input_files (fst (main tk)))) =
        {''subject_walk_armless.osim'', ''grf_walk.xml'', ''marker_trajectories.trc'',
         ''coordinates.sto''} \<and>
      card (set (concat (map input_files (fst (main tk))))) = 4"
  proof
    assume "snd (main tk) = Inr code"
    then have "fst (main tk) = main_calls tk" by (rule main_returns)
    with all show "set (concat (map input_files (fst (main tk)))) =
        {''subject_walk_armless.osim'', ''grf_walk.xml'', ''marker_trajectories.trc'',
         ''coordinates.sto''} \<and>
      card (set (concat (map input_files (fst (main tk))))) = 4"
      by simp
  qed
  show ?thesis
    by (intro conjI) (fact ret sub)+
qed

theorem C6_input_files_witness:
  "snd (main example_toolkit) = Inr EXIT_SUCCESS \<and>
   set (concat (map input_files (fst (main example_toolkit)))) =
     {''subject_walk_armless.osim'', ''grf_walk.xml'', ''marker_trajectories.trc'',
      ''coordinates.sto''} \<and>
   card (set (concat (map input_files (fst (main example_toolkit))))) = 4"
proof -
  have r: "snd (main example_toolkit) = Inr EXIT_SUCCESS"
    by (simp add: main_example)
  from C6_input_files [of example_toolkit EXIT_SUCCESS]
  have "snd (main example_toolkit) = Inr EXIT_SUCCESS \<longrightarrow>
      set (concat (map input_files (fst (main example_toolkit)))) =
        {''subject_walk_armless.osim'', ''grf_walk.xml'', ''marker_trajectories.trc'',
         ''coordinates.sto''} \<and>
      card (set (concat (map input_files (fst (main example_toolkit))))) = 4"
    by (rule conjunct1)
  from this r have
    "set (concat (map input_files (fst (main example_toolkit)))) =
        {''subject_walk_armless.osim'', ''grf_walk.xml'', ''marker_trajectories.trc'',
         ''coordinates.sto''} \<and>
      card (set (concat (map input_files (fst (main example_toolkit))))) = 4"
    by (rule mp)
  with r show ?thesis by (rule conjI)
qed

text \<open>
  C7. In every run that returns, before the call that builds its problem
  (\<^verbatim>\<open>track.solve\<close> in torqueDrivenMarkerTracking, \<^verbatim>\<open>track.initialize\<close> in
  muscleDrivenStateTracking), the procedure supplies the scalar settings: the global
  tracking weight 10 (of the markers in the first procedure, of the states in the
  second), the initial time 0.81, the final time 1.65, and the mesh interval 0.05 in
  the first procedure and 0.08 in the second.
\<close>

theorem C7_scalar_settings:
  "(snd (torqueDrivenMarkerTracking tk h) = None \<longrightarrow>
      filter scalar_setting (before_build (own_calls h (torqueDrivenMarkerTracking tk h))) =
        [set_markers_global_tracking_weight 10, set_initial_time 0.81, set_final_time 1.65,
         set_mesh_interval 0.05] \<and>
      filter builds_problem (own_calls h (torqueDrivenMarkerTracking tk h)) =
        [MocoTrack_solve True]) \<and>
   (snd (muscleDrivenStateTracking tk h) = None \<longrightarrow>
      filter scalar_setting (before_build (own_calls h (muscleDrivenStateTracking tk h))) =
        [set_states_global_tracking_weight 10, set_initial_time 0.81, set_final_time 1.65,
         set_mesh_interval 0.08] \<and>
      filter builds_problem (own_calls h (muscleDrivenStateTracking tk h)) = [initialize])"
  by (simp add: torque_returns muscle_returns scalars_torque scalars_muscle builds_torque
      builds_muscle)

theorem C7_scalar_settings_witness:
  "snd (torqueDrivenMarkerTracking example_toolkit []) = None \<and>
   filter scalar_setting
       (before_build (own_calls [] (torqueDrivenMarkerTracking example_toolkit []))) =
     [set_markers_global_tracking_weight 10, set_initial_time 0.81, set_final_time 1.65,
      set_mesh_interval 0.05] \<and>
   snd (muscleDrivenStateTracking example_toolkit []) = None \<and>
   filter scalar_setting
       (before_build (own_calls [] (muscleDrivenStateTracking example_toolkit []))) =
     [set_states_global_tracking_weight 10, set_initial_time 0.81, set_final_time 1.65,
      set_mesh_interval 0.08]"
proof -
  have r: "snd (torqueDrivenMarkerTracking example_toolkit []) = None"
    "snd (muscleDrivenStateTracking example_toolkit []) = None"
    by (simp_all add: torque_example muscle_example)
  with C7_scalar_settings [of example_toolkit "[]"] show ?thesis by blast
qed



text \<open>
  C9. In every run of torqueDrivenMarkerTracking that returns, one marker weight set
  is handed to the tool. It has exactly 14 entries with 14 different names, each name
  starting with "L." or "R.", and it is left/right symmetric: "L.X" is in the set with
  a weight exactly when "R.X" is in the set with that weight. The pairs are ASIS and
  PSIS at 20, Knee, Ankle and Heel at 10, MT5 at 5, and Toe at 2.
\<close>

theorem C9_marker_weights:
  assumes "snd (torqueDrivenMarkerTracking tk h) = None"
  shows "\<exists>ws. weight_sets_set (own_calls h (torqueDrivenMarkerTracking tk h)) = [ws] \<and>
     foldl weight_call [] (own_calls h (torqueDrivenMarkerTracking tk h)) = ws \<and>
     length ws = 14 \<and>
     distinct (map fst ws) \<and>
     list_all (\<lambda>(n, w). take 2 n = ''L.'' \<or> take 2 n = ''R.'') ws \<and>
     (\<forall>X w. (''L.'' @ X, w) \<in> set ws \<longleftrightarrow> (''R.'' @ X, w) \<in> set ws) \<and>
     set ws =
       {(''L.ASIS'', 20), (''R.ASIS'', 20), (''L.PSIS'', 20), (''R.PSIS'', 20),
        (''L.Knee'', 10), (''R.Knee'', 10), (''L.Ankle'', 10), (''R.Ankle'', 10),
        (''L.Heel'', 10), (''R.Heel'', 10), (''L.MT5'', 5), (''R.MT5'', 5),
        (''L.Toe'', 2), (''R.Toe'', 2)}"
proof -
  from assms have run:
    "own_calls h (torqueDrivenMarkerTracking tk h) = torqueDrivenMarkerTracking_calls"
    by (rule torque_returns)
  have a: "weight_sets_set (own_calls h (torqueDrivenMarkerTracking tk h)) = [markerWeights]"
    by (simp add: run weight_set_torque)
  have a': "foldl weight_call [] (own_calls h (torqueDrivenMarkerTracking tk h)) =
      markerWeights"
    by (simp add: run torqueDrivenMarkerTracking_calls_def markerWeights_calls_def
        markerWeights_def weight_call_def)
  have b: "length markerWeights = 14" "distinct (map fst markerWeights)"
    "list_all (\<lambda>(n, w). take 2 n = ''L.'' \<or> take 2 n = ''R.'') markerWeights"
    by (simp_all add: markerWeights_entries)
  have c: "set markerWeights =
     {(''L.ASIS'', 20), (''R.ASIS'', 20), (''L.PSIS'', 20), (''R.PSIS'', 20),
      (''L.Knee'', 10), (''R.Knee'', 10), (''L.Ankle'', 10), (''R.Ankle'', 10),
      (''L.Heel'', 10), (''R.Heel'', 10), (''L.MT5'', 5), (''R.MT5'', 5),
      (''L.Toe'', 2), (''R.Toe'', 2)}"
    unfolding markerWeights_entries by auto
  show ?thesis
    by (rule exI [of _ markerWeights], intro conjI allI)
       (fact a a' b c markerWeights_mirror)+
qed

theorem C9_marker_weights_witness:
  "snd (torqueDrivenMarkerTracking example_toolkit []) = None \<and>
   (\<exists>ws. weight_sets_set (own_calls [] (torqueDrivenMarkerTracking example_toolkit [])) = [ws] \<and>
     foldl weight_call [] (own_calls [] (torqueDrivenMarkerTracking example_toolkit [])) = ws \<and>
     length ws = 14 \<and>
     distinct (map fst ws) \<and>
     list_all (\<lambda>(n, w). take 2 n = ''L.'' \<or> take 2 n = ''R.'') ws \<and>
     (\<forall>X w. (''L.'' @ X, w) \<in> set ws \<longleftrightarrow> (''R.'' @ X, w) \<in> set ws) \<and>
     set ws =
       {(''L.ASIS'', 20), (''R.ASIS'', 20), (''L.PSIS'', 20), (''R.PSIS'', 20),
        (''L.Knee'', 10), (''R.Knee'', 10), (''L.Ankle'', 10), (''R.Ankle'', 10),
        (''L.Heel'', 10), (''R.Heel'', 10), (''L.MT5'', 5), (''R.MT5'', 5),
        (''L.Toe'', 2), (''R.Toe'', 2)})"
proof -
  have r: "snd (torqueDrivenMarkerTracking example_toolkit []) = None"
    by (simp add: torque_example)
  from r C9_marker_weights [OF r] show ?thesis by (rule conjI)
qed

text \<open>
  C10. \<^verbatim>\<open>main\<close> runs torqueDrivenMarkerTracking and then muscleDrivenStateTracking. When
  both return, it returns \<^verbatim>\<open>EXIT_SUCCESS\<close>, and it never returns another code: the
  solution the solver hands back is not looked at. An exception raised by a toolkit
  call in either procedure leaves \<^verbatim>\<open>main\<close> uncaught, and no call is made after it.
\<close>

theorem C10_main:
  "(snd (torqueDrivenMarkerTracking tk []) = None \<and>
    snd (muscleDrivenStateTracking tk (fst (torqueDrivenMarkerTracking tk []))) = None \<longrightarrow>
      main tk =
        (torqueDrivenMarkerTracking_calls @ muscleDrivenStateTracking_calls tk,
         Inr EXIT_SUCCESS)) \<and>
   (snd (torqueDrivenMarkerTracking tk []) = Some e \<longrightarrow>
      main tk = (fst (torqueDrivenMarkerTracking tk []), Inl e)) \<and>
   (snd (torqueDrivenMarkerTracking tk []) = None \<and>
    snd (muscleDrivenStateTracking tk (fst (torqueDrivenMarkerTracking tk []))) = Some e \<longrightarrow>
      main tk =
        (fst (muscleDrivenStateTracking tk (fst (torqueDrivenMarkerTracking tk []))), Inl e)) \<and>
   (snd (main tk) = Inr code \<longrightarrow> code = EXIT_SUCCESS) \<and>
   ((\<forall>h c. \<not> throws tk h c) \<longrightarrow>
      snd (main (tk\<lparr>solve_result := s\<rparr>)) = Inr EXIT_SUCCESS)"
proof -
  have quiet: "(\<forall>h c. \<not> throws tk h c) \<longrightarrow>
      snd (main (tk\<lparr>solve_result := s\<rparr>)) = Inr EXIT_SUCCESS"
    by (simp add: main_def torqueDrivenMarkerTracking_def muscleDrivenStateTracking_def
        exec_quiet)
  have returns: "main tk =
        (torqueDrivenMarkerTracking_calls @ muscleDrivenStateTracking_calls tk,
         Inr EXIT_SUCCESS)"
    if "snd (torqueDrivenMarkerTracking tk []) = None"
      "snd (muscleDrivenStateTracking tk (fst (torqueDrivenMarkerTracking tk []))) = None"
  proof -
    from that(1) have t: "torqueDrivenMarkerTracking tk [] =
        (torqueDrivenMarkerTracking_calls, None)"
      using exec_returns [of tk "[]" torqueDrivenMarkerTracking_calls]
      by (simp add: torqueDrivenMarkerTracking_def prod_eq_iff)
    with that(2) have "muscleDrivenStateTracking tk torqueDrivenMarkerTracking_calls =
        (torqueDrivenMarkerTracking_calls @ muscleDrivenStateTracking_calls tk, None)"
      using exec_returns [of tk torqueDrivenMarkerTracking_calls
          "muscleDrivenStateTracking_calls tk"]
      by (simp add: muscleDrivenStateTracking_def prod_eq_iff)
    with t show ?thesis by (simp add: main_def)
  qed
  have code: "snd (main tk) = Inr code \<longrightarrow> code = EXIT_SUCCESS"
    by (cases "torqueDrivenMarkerTracking tk []";
        cases "muscleDrivenStateTracking tk (fst (torqueDrivenMarkerTracking tk []))")
       (auto simp: main_def split: option.splits)
  have first: "snd (torqueDrivenMarkerTracking tk []) = Some e \<longrightarrow>
      main tk = (fst (torqueDrivenMarkerTracking tk []), Inl e)"
    by (cases "torqueDrivenMarkerTracking tk []") (auto simp: main_def)
  have second: "snd (torqueDrivenMarkerTracking tk []) = None \<and>
    snd (muscleDrivenStateTracking tk (fst (torqueDrivenMarkerTracking tk []))) = Some e \<longrightarrow>
      main tk =
        (fst (muscleDrivenStateTracking tk (fst (torqueDrivenMarkerTracking tk []))), Inl e)"
    by (cases "torqueDrivenMarkerTracking tk []";
        cases "muscleDrivenStateTracking tk (fst (torqueDrivenMarkerTracking tk []))")
       (auto simp: main_def)
  from returns have both: "snd (torqueDrivenMarkerTracking tk []) = None \<and>
    snd (muscleDrivenStateTracking tk (fst (torqueDrivenMarkerTracking tk []))) = None \<longrightarrow>
      main tk =
        (torqueDrivenMarkerTracking_calls @ muscleDrivenStateTracking_calls tk,
         Inr EXIT_SUCCESS)"
    by simp
  show ?thesis
    by (intro conjI) (fact both first second code quiet)+
qed

theorem C10_main_witness:
  "main example_toolkit =
     (torqueDrivenMarkerTracking_calls @ muscleDrivenStateTracking_calls example_toolkit,
      Inr EXIT_SUCCESS) \<and>
   snd (main failing_toolkit) = Inr EXIT_SUCCESS \<and>
   snd (main raising_toolkit) = Inl (Exception MocoStudy_solve)"
proof -
  have q: "\<forall>h c. \<not> throws example_toolkit h c"
    by (simp add: example_quiet)
  have t: "snd (torqueDrivenMarkerTracking example_toolkit []) = None"
    "snd (muscleDrivenStateTracking example_toolkit
       (fst (torqueDrivenMarkerTracking example_toolkit []))) = None"
    by (simp_all add: torque_example muscle_example)
  have rt: "torqueDrivenMarkerTracking raising_toolkit [] =
      (torqueDrivenMarkerTracking_calls, None)"
    by (simp add: torqueDrivenMarkerTracking_def torqueDrivenMarkerTracking_calls_def
        markerWeights_calls_def raising_toolkit_def example_toolkit_def)
  have rm: "snd (muscleDrivenStateTracking raising_toolkit torqueDrivenMarkerTracking_calls) =
      Some (Exception MocoStudy_solve)"
    by (simp add: muscleDrivenStateTracking_def muscleDrivenStateTracking_calls_def
        raising_toolkit_def example_toolkit_def npos_def Let_def)
  have "main example_toolkit =
     (torqueDrivenMarkerTracking_calls @ muscleDrivenStateTracking_calls example_toolkit,
      Inr EXIT_SUCCESS)"
    using C10_main [of example_toolkit] t by blast
  moreover have "snd (main failing_toolkit) = Inr EXIT_SUCCESS"
    using C10_main [of example_toolkit _ _ "MocoSolution False"] q
    by (simp add: failing_toolkit_def)
  moreover have "snd (main raising_toolkit) = Inl (Exception MocoStudy_solve)"
    using C10_main [of raising_toolkit "Exception MocoStudy_solve"] rt rm by simp
  ultimately show ?thesis by blast
qed

end
